theory Spec2Isabelle
  imports Main
begin

section \<open>Python values, exceptions and the process environment\<close>

text \<open>
  A Python \<open>str\<close> is modelled as an Isabelle \<open>string\<close>. The model is exact on ASCII text;
  text beyond ASCII is carried as its UTF-8 bytes, and what the Python library does with it
  through Unicode tables (white space beyond ASCII, case folding of a host name, the NFKC
  check of a network location, the replacement of ill-formed UTF-8 after percent-decoding)
  is not modelled.
\<close>

datatype exn = IndexError | KeyError | OSError | ValueError | SyntaxError | AttributeError | TypeError

text \<open>The values \<open>ast.literal_eval\<close> can return: a string, or some other object.\<close>

datatype pyval = PyStr string | PyOther

text \<open>
  What \<open>open(file_path)\<close> meets: no such file (\<open>FileNotFoundError\<close>), another
  \<open>OSError\<close> (permission denied, a directory, ...), or the lines the iteration over the
  open file yields.
\<close>

datatype os_file = Missing | Unreadable | Lines "string list"

text \<open>
  The environment of the process: the file system, and the two parts of the Python library
  that are taken as parameters: \<open>ast.literal_eval\<close> on anything but a plain quoted literal,
  and the check of a bracketed host (\<open>ipaddress\<close>) in \<open>urlsplit\<close>.
\<close>

record environment =
  file_at :: "string \<Rightarrow> os_file"
  literal_eval_other :: "string \<Rightarrow> exn + pyval"
  bracketed_host_ok :: "string \<Rightarrow> bool"

text \<open>\<open>xs[i]\<close>: a negative index counts from the end, an index out of range raises.\<close>

definition py_index :: "'a list \<Rightarrow> int \<Rightarrow> exn + 'a" where
  "py_index xs i =
     (if 0 \<le> i \<and> i < int (length xs) then Inr (xs ! nat i)
      else if i < 0 \<and> - int (length xs) \<le> i then Inr (xs ! nat (int (length xs) + i))
      else Inl IndexError)"

text \<open>Truth value of an \<open>Optional[list]\<close> and of an \<open>Optional[str]\<close>: \<open>None\<close> and the empty one are false.\<close>

fun truthy :: "'a list option \<Rightarrow> bool" where
  "truthy None = False"
| "truthy (Some xs) = (xs \<noteq> [])"

text \<open>\<open>list.extend\<close> with an \<open>Optional[list]\<close> known to be true.\<close>

fun elems :: "'a list option \<Rightarrow> 'a list" where
  "elems None = []"
| "elems (Some xs) = xs"

section \<open>The terminal registry\<close>

record Terminal =
  name :: string
  workdir_arguments :: "string list option"
  new_tab_arguments :: "string list option"
  new_window_arguments :: "string list option"
  command_arguments :: "string list"
  flatpak_package :: "string option"

text \<open>The dataclass constructor with its defaults.\<close>

definition Terminal_init :: "string \<Rightarrow> Terminal" where
  "Terminal_init n =
     \<lparr>name = n, workdir_arguments = None, new_tab_arguments = None,
      new_window_arguments = None, command_arguments = [''-e''], flatpak_package = None\<rparr>"

definition TERMINALS_items :: "(string \<times> Terminal) list" where
  "TERMINALS_items =
    [(''alacritty'', Terminal_init ''Alacritty''),
     (''blackbox'', (Terminal_init ''Black Box'')
        \<lparr>workdir_arguments := Some [''--working-directory''],
         command_arguments := [''-c''],
         flatpak_package := Some ''com.raggesilver.BlackBox''\<rparr>),
     (''cool-retro-term'', (Terminal_init ''cool-retro-term'')\<lparr>workdir_arguments := Some [''--workdir'']\<rparr>),
     (''deepin-terminal'', Terminal_init ''Deepin Terminal''),
     (''foot'', Terminal_init ''Foot''),
     (''footclient'', Terminal_init ''FootClient''),
     (''gnome-terminal'', (Terminal_init ''Terminal'')\<lparr>new_tab_arguments := Some [''--tab'']\<rparr>),
     (''guake'', (Terminal_init ''Guake'')\<lparr>workdir_arguments := Some [''--show'', ''--new-tab'']\<rparr>),
     (''hyper'', Terminal_init ''Hyper''),
     (''kermit'', Terminal_init ''Kermit''),
     (''kgx'', (Terminal_init ''Console'')\<lparr>new_tab_arguments := Some [''--tab'']\<rparr>),
     (''kitty'', Terminal_init ''kitty''),
     (''konsole'', (Terminal_init ''Konsole'')\<lparr>new_tab_arguments := Some [''--new-tab'']\<rparr>),
     (''mate-terminal'', (Terminal_init ''Mate Terminal'')\<lparr>new_tab_arguments := Some [''--tab'']\<rparr>),
     (''mlterm'', Terminal_init ''Mlterm''),
     (''prompt'', (Terminal_init ''Prompt'')
        \<lparr>command_arguments := [''-x''],
         new_tab_arguments := Some [''--tab''],
         new_window_arguments := Some [''--new-window''],
         flatpak_package := Some ''org.gnome.Prompt''\<rparr>),
     (''qterminal'', Terminal_init ''QTerminal''),
     (''rio'', Terminal_init ''Rio''),
     (''sakura'', Terminal_init ''Sakura''),
     (''st'', Terminal_init ''Simple Terminal''),
     (''tabby'', (Terminal_init ''Tabby'')
        \<lparr>command_arguments := [''run''], workdir_arguments := Some [''open'']\<rparr>),
     (''terminator'', (Terminal_init ''Terminator'')\<lparr>new_tab_arguments := Some [''--new-tab'']\<rparr>),
     (''terminology'', Terminal_init ''Terminology''),
     (''terminus'', Terminal_init ''Terminus''),
     (''termite'', Terminal_init ''Termite''),
     (''tilix'', (Terminal_init ''Tilix'')\<lparr>flatpak_package := Some ''com.gexperts.Tilix''\<rparr>),
     (''urxvt'', Terminal_init ''rxvt-unicode''),
     (''urxvtc'', Terminal_init ''urxvtc''),
     (''uxterm'', Terminal_init ''UXTerm''),
     (''warp'', Terminal_init ''warp''),
     (''wezterm'', (Terminal_init ''Wez's Terminal Emulator'')
        \<lparr>workdir_arguments := Some [''start'', ''--cwd''],
         flatpak_package := Some ''org.wezfurlong.wezterm''\<rparr>),
     (''xfce4-terminal'', (Terminal_init ''Xfce Terminal'')\<lparr>new_tab_arguments := Some [''--tab'']\<rparr>),
     (''xterm'', Terminal_init ''XTerm'')]"

text \<open>\<open>TERMINALS.get(value)\<close>: the keys of the dictionary are distinct.\<close>

definition TERMINALS :: "string \<Rightarrow> Terminal option" where
  "TERMINALS = map_of TERMINALS_items"

definition FLATPAK_PARMS :: "string list" where
  "FLATPAK_PARMS = [''off'', ''system'', ''user'']"

definition REMOTE_URI_SCHEME :: "string list" where
  "REMOTE_URI_SCHEME = [''ftp'', ''sftp'']"

section \<open>The globals of the module\<close>

text \<open>
  Python lists are objects: a variable holds a reference, and \<open>copy\<close>, \<open>extend\<close>,
  \<open>append\<close> and item assignment work on the object referred to. The store maps each
  address to the list there; an element is an \<open>Optional[str]\<close>. \<open>stdout\<close> collects the
  lines printed, and \<open>distro_cache\<close> is the memo of \<open>functools.cache\<close> on \<open>distro_id\<close>.
\<close>

type_synonym addr = nat

record state =
  terminal :: string
  terminal_cmd :: "addr option"
  terminal_data :: Terminal
  new_tab :: bool
  flatpak :: string
  heap :: "addr \<Rightarrow> string option list"
  next_addr :: addr
  distro_cache :: "pyval option"
  stdout :: "string list"

text \<open>The state after the assignments at the top of the module.\<close>

definition initial_state :: state where
  "initial_state =
     \<lparr>terminal = ''gnome-terminal'', terminal_cmd = None,
      terminal_data = (Terminal_init ''Terminal'')\<lparr>new_tab_arguments := Some [''--tab'']\<rparr>,
      new_tab = False, flatpak = ''off'', heap = (\<lambda>a. []), next_addr = 0,
      distro_cache = None, stdout = []\<rparr>"

definition new_list :: "string option list \<Rightarrow> state \<Rightarrow> addr \<times> state" where
  "new_list xs st =
     (next_addr st, st\<lparr>heap := (heap st)(next_addr st := xs), next_addr := Suc (next_addr st)\<rparr>)"

definition list_copy :: "addr \<Rightarrow> state \<Rightarrow> addr \<times> state" where
  "list_copy a st = new_list (heap st a) st"

definition list_extend :: "addr \<Rightarrow> string option list \<Rightarrow> state \<Rightarrow> state" where
  "list_extend a xs st = st\<lparr>heap := (heap st)(a := heap st a @ xs)\<rparr>"

definition list_append :: "addr \<Rightarrow> string option \<Rightarrow> state \<Rightarrow> state" where
  "list_append a x st = list_extend a [x] st"

definition print_line :: "string \<Rightarrow> state \<Rightarrow> state" where
  "print_line s st = st\<lparr>stdout := stdout st @ [s]\<rparr>"

text \<open>The list the global \<open>terminal_cmd\<close> refers to, if it is not \<open>None\<close>.\<close>

definition command_prefix :: "state \<Rightarrow> string option list option" where
  "command_prefix st = map_option (heap st) (terminal_cmd st)"

section \<open>Reading the distribution's identification\<close>

definition isspace :: "char \<Rightarrow> bool" where
  "isspace c = (c \<in> set [CHR 0x09, CHR 0x0A, CHR 0x0B, CHR 0x0C, CHR 0x0D,
                          CHR 0x1C, CHR 0x1D, CHR 0x1E, CHR 0x1F, CHR 0x20])"

definition rstrip :: "string \<Rightarrow> string" where
  "rstrip s = rev (dropWhile isspace (rev s))"

definition upper_char :: "char \<Rightarrow> bool" where
  "upper_char c = (c \<in> set ''ABCDEFGHIJKLMNOPQRSTUVWXYZ'')"

definition digit_char :: "char \<Rightarrow> bool" where
  "digit_char c = (c \<in> set ''0123456789'')"

definition name_char :: "char \<Rightarrow> bool" where
  "name_char c = (upper_char c \<or> c = CHR ''_'' \<or> digit_char c)"

text \<open>
  \<open>re.match(r"([A-Z][A-Z_0-9]+)=(.*)", line)\<close>: the name is the longest run of name
  characters, since \<open>=\<close> is not one of them; \<open>.*\<close> stops before a newline.
\<close>

definition match_assignment :: "string \<Rightarrow> (string \<times> string) option" where
  "match_assignment line =
     (case (takeWhile name_char line, dropWhile name_char line) of
        (c # d # ds, e # val) \<Rightarrow>
          if upper_char c \<and> e = CHR ''=''
          then Some (c # d # ds, takeWhile (\<lambda>x. x \<noteq> CHR 0x0A) val) else None
      | _ \<Rightarrow> None)"

text \<open>
  \<open>ast.literal_eval\<close>: a quote, printable ASCII characters other than that quote and the
  backslash, and the same quote again is the literal of the characters between; every
  other text is left to the environment.
\<close>

definition printable :: "char \<Rightarrow> bool" where
  "printable c = (32 \<le> (of_char c :: nat) \<and> (of_char c :: nat) \<le> 126)"

definition plain_literal :: "string \<Rightarrow> string option" where
  "plain_literal s =
     (case s of
        [] \<Rightarrow> None
      | q # r \<Rightarrow>
          if (q = CHR 0x22 \<or> q = CHR 0x27) \<and> r \<noteq> [] \<and> last r = q
             \<and> list_all (\<lambda>c. printable c \<and> c \<noteq> q \<and> c \<noteq> CHR 0x5C) (butlast r)
          then Some (butlast r) else None)"

definition literal_eval :: "environment \<Rightarrow> string \<Rightarrow> exn + pyval" where
  "literal_eval env s =
     (case plain_literal s of Some b \<Rightarrow> Inr (PyStr b) | None \<Rightarrow> literal_eval_other env s)"

text \<open>
  \<open>read_os_release\<close> (lines 123 to 142). First the body of the loop over the lines of
  one file; the pairs are those yielded, and \<open>Inl\<close> is the exception that ends the
  generator.
\<close>

fun read_lines :: "environment \<Rightarrow> string list \<Rightarrow> exn + (string \<times> pyval) list" where
  "read_lines env [] = Inr []"
| "read_lines env (l # ls) =
     (let line = rstrip l in
      if line = [] \<or> take 1 line = ''#'' then read_lines env ls
      else (case match_assignment line of
              None \<Rightarrow> Inl OSError
            | Some (nm, val) \<Rightarrow>
                (case (if val \<noteq> [] \<and> (hd val = CHR 0x22 \<or> hd val = CHR 0x27)
                       then literal_eval env val else Inr (PyStr val)) of
                   Inl e \<Rightarrow> Inl e
                 | Inr v \<Rightarrow>
                     (case read_lines env ls of
                        Inl e \<Rightarrow> Inl e
                      | Inr rest \<Rightarrow> Inr ((nm, v) # rest)))))"

text \<open>
  The loop over the paths: a missing file is skipped, and after a file has been read the
  loop goes on to the next path. An exception ends the generator.
\<close>

fun read_paths :: "environment \<Rightarrow> string list \<Rightarrow> exn + (string \<times> pyval) list" where
  "read_paths env [] = Inr []"
| "read_paths env (p # ps) =
     (case file_at env p of
        Missing \<Rightarrow> read_paths env ps
      | Unreadable \<Rightarrow> Inl OSError
      | Lines ls \<Rightarrow>
          (case read_lines env ls of
             Inl e \<Rightarrow> Inl e
           | Inr items \<Rightarrow>
               (case read_paths env ps of
                  Inl e \<Rightarrow> Inl e
                | Inr rest \<Rightarrow> Inr (items @ rest))))"

definition possible_os_release_paths :: "string list" where
  "possible_os_release_paths = [''/etc/os-release'', ''/usr/lib/os-release'']"

definition read_os_release :: "environment \<Rightarrow> exn + (string \<times> pyval) list" where
  "read_os_release env = read_paths env possible_os_release_paths"

text \<open>
  The body of \<open>distro_id\<close> (lines 145 to 151): \<open>dict\<close> keeps the last value of a key,
  \<open>["ID"]\<close> raises \<open>KeyError\<close> on a missing key, and only \<open>OSError\<close> is caught.
\<close>

definition distro_id_body :: "environment \<Rightarrow> exn + pyval" where
  "distro_id_body env =
     (case read_os_release env of
        Inl e \<Rightarrow> if e = OSError then Inr (PyStr ''unknown'') else Inl e
      | Inr items \<Rightarrow>
          (case map_of (rev items) ''ID'' of
             None \<Rightarrow> Inl KeyError
           | Some d \<Rightarrow> Inr d))"

text \<open>
  \<open>@cache\<close> on a function without arguments: the memo holds the value once one has been
  returned; an exception is not kept. The result is what the call gives and the memo after it.
\<close>

definition functools_cache :: "pyval option \<Rightarrow> exn + pyval \<Rightarrow> (exn + pyval) \<times> pyval option" where
  "functools_cache memo body =
     (case memo of
        Some d \<Rightarrow> (Inr d, memo)
      | None \<Rightarrow> (case body of Inl e \<Rightarrow> (Inl e, None) | Inr d \<Rightarrow> (Inr d, Some d)))"

definition distro_id :: "environment \<Rightarrow> state \<Rightarrow> (exn + pyval) \<times> state" where
  "distro_id env st =
     (fst (functools_cache (distro_cache st) (distro_id_body env)),
      st\<lparr>distro_cache := snd (functools_cache (distro_cache st) (distro_id_body env))\<rparr>)"

section \<open>The configuration resolver\<close>

text \<open>What the settings store returns for the three keys read.\<close>

record gsettings =
  get_string_terminal :: string
  get_boolean_new_tab :: bool
  get_enum_flatpak :: int

definition quoted :: "string \<Rightarrow> string" where
  "quoted s = [CHR 0x22] @ s @ [CHR 0x22]"

definition status_line :: "string \<Rightarrow> string \<Rightarrow> string \<Rightarrow> string" where
  "status_line t new_tab_text flatpak_text =
     ''open-any-terminal: terminal is set to '' @ quoted t @ '' '' @ new_tab_text @ '' '' @ flatpak_text"

text \<open>
  \<open>set_terminal_args\<close> (lines 187 to 221 of the module). The result is the exception
  raised, if any, and the globals as the call leaves them: an exception does not undo the
  assignments before it. An assignment under a condition is written as the new value of
  the field, which is the old value when the condition fails. \<open>terminal_cmd[0] = ...\<close>
  stores into the list just built with one element, so the index is in range.
\<close>

definition set_terminal_args :: "environment \<Rightarrow> gsettings \<Rightarrow> state \<Rightarrow> exn option \<times> state" where
  "set_terminal_args env gs st =
     (let v = get_string_terminal gs;
          newer_tab = get_boolean_new_tab gs
      in case py_index FLATPAK_PARMS (get_enum_flatpak gs) of
           Inl e \<Rightarrow> (Some e, st)
         | Inr f \<Rightarrow>
             let st1 = st\<lparr>flatpak := f\<rparr> in
             (case TERMINALS v of
                None \<Rightarrow>
                  (None, print_line (''open-any-terminal: unknown terminal '' @ quoted v) st1)
              | Some new_terminal_data \<Rightarrow>
                  let st2 = st1\<lparr>terminal := v, terminal_data := new_terminal_data\<rparr>;
                      tabs = truthy (new_tab_arguments (terminal_data st2));
                      st3 = st2\<lparr>new_tab := (if newer_tab \<and> tabs then newer_tab else new_tab st2)\<rparr>;
                      new_tab_text =
                        (if newer_tab \<and> tabs then ''opening in a new tab''
                         else ''opening a new window'')
                        @ (if newer_tab \<and> \<not> tabs then '' (terminal does not support tabs)''
                           else [])
                  in if flatpak st3 \<noteq> FLATPAK_PARMS ! 0
                        \<and> flatpak_package (terminal_data st3) \<noteq> None
                     then
                       let (a, st4) = new_list [Some ''flatpak'', Some ''run'',
                                                Some (''--'' @ flatpak st3),
                                                flatpak_package (terminal_data st3)] st3;
                           st5 = st4\<lparr>terminal_cmd := Some a\<rparr>;
                           flatpak_text = ''with flatpak as '' @ flatpak st5
                       in (None, print_line (status_line (terminal st5) new_tab_text flatpak_text) st5)
                     else
                       let (a, st4) = new_list [Some (terminal st3)] st3;
                           st5 = st4\<lparr>terminal_cmd := Some a\<rparr>
                       in (case (if terminal st5 = ''blackbox''
                                 then (case distro_id env st5 of
                                         (Inl e, s) \<Rightarrow> Inl (e, s)
                                       | (Inr d, s) \<Rightarrow> Inr (d = PyStr ''fedora'', s))
                                 else Inr (False, st5)) of
                             Inl (e, s) \<Rightarrow> (Some e, s)
                           | Inr (fedora, st6) \<Rightarrow>
                               let st7 = st6\<lparr>heap := (heap st6)
                                                 (a := (if fedora
                                                        then (heap st6 a)[0 := Some ''blackbox-terminal'']
                                                        else heap st6 a))\<rparr>;
                                   st8 = st7\<lparr>flatpak := FLATPAK_PARMS ! 0\<rparr>;
                                   flatpak_text = []
                               in (None, print_line (status_line (terminal st8) new_tab_text flatpak_text) st8))))"

section \<open>The Python library functions the launcher calls\<close>

definition lower_char :: "char \<Rightarrow> bool" where
  "lower_char c = (c \<in> set ''abcdefghijklmnopqrstuvwxyz'')"

definition alpha_char :: "char \<Rightarrow> bool" where
  "alpha_char c = (upper_char c \<or> lower_char c)"

text \<open>\<open>str.lower\<close>, on ASCII letters.\<close>

definition lower :: "string \<Rightarrow> string" where
  "lower s =
     map (\<lambda>c. case map_of (zip ''ABCDEFGHIJKLMNOPQRSTUVWXYZ'' ''abcdefghijklmnopqrstuvwxyz'') c of
                 None \<Rightarrow> c | Some d \<Rightarrow> d) s"

definition digit_val :: "char \<Rightarrow> nat" where
  "digit_val c = (case map_of (zip ''0123456789'' [0, 1, 2, 3, 4, 5, 6, 7, 8, 9]) c of
                    None \<Rightarrow> 0 | Some d \<Rightarrow> d)"

text \<open>\<open>int(port)\<close> on a text of ASCII digits, and \<open>str\<close> of a number that is not negative.\<close>

definition int_of_digits :: "string \<Rightarrow> nat" where
  "int_of_digits ds = foldl (\<lambda>n c. 10 * n + digit_val c) 0 ds"

function str_nat :: "nat \<Rightarrow> string" where
  "str_nat n = (if n < 10 then [''0123456789'' ! n] else str_nat (n div 10) @ [''0123456789'' ! (n mod 10)])"
  by pat_completeness auto
termination
  by (relation "measure id") auto

subsection \<open>\<open>urllib.parse.urlparse\<close>\<close>

text \<open>
  Of the six fields of the result, the three the launcher reads; \<open>username\<close>,
  \<open>hostname\<close> and \<open>port\<close> are computed from \<open>netloc\<close>, as the properties of the result are.
\<close>

record ParseResult =
  scheme :: string
  netloc :: string
  path :: string

definition scheme_char :: "char \<Rightarrow> bool" where
  "scheme_char c = (alpha_char c \<or> digit_char c \<or> c \<in> set ''+-.'')"

definition uses_params :: "string list" where
  "uses_params = ([] # [''ftp'', ''hdl'', ''prospero'', ''http'', ''imap'', ''https'', ''shttp'',
                  ''rtsp'', ''rtsps'', ''rtspu'', ''sip'', ''sips'', ''mms'', ''sftp'', ''tel''])"

text \<open>\<open>s.partition(c)\<close>: the text before the first \<open>c\<close>, whether there is one, the text after it.\<close>

definition str_partition :: "char \<Rightarrow> string \<Rightarrow> string \<times> bool \<times> string" where
  "str_partition c s = (takeWhile (\<lambda>x. x \<noteq> c) s, c \<in> set s, drop 1 (dropWhile (\<lambda>x. x \<noteq> c) s))"

text \<open>\<open>s.rpartition(c)\<close>: the same at the last \<open>c\<close>; without one, all of \<open>s\<close> is the text after.\<close>

definition str_rpartition :: "char \<Rightarrow> string \<Rightarrow> string \<times> bool \<times> string" where
  "str_rpartition c s =
     (rev (drop 1 (dropWhile (\<lambda>x. x \<noteq> c) (rev s))), c \<in> set s, rev (takeWhile (\<lambda>x. x \<noteq> c) (rev s)))"

text \<open>The scheme: the text before the first colon, if it starts with an ASCII letter and is made of scheme characters.\<close>

definition split_scheme :: "string \<Rightarrow> string \<times> string" where
  "split_scheme url =
     (case str_partition CHR '':'' url of
        (c # cs, True, rest) \<Rightarrow>
          if alpha_char c \<and> list_all scheme_char (c # cs) then (lower (c # cs), rest) else ([], url)
      | _ \<Rightarrow> ([], url))"

definition netloc_end :: "char \<Rightarrow> bool" where
  "netloc_end c = (c \<in> set ''/?#'')"

text \<open>\<open>_splitparams\<close>, the path it returns: the last segment is cut at its first semicolon.\<close>

definition splitparams :: "string \<Rightarrow> string" where
  "splitparams url =
     (case str_rpartition CHR ''/'' url of
        (dir, slash, seg) \<Rightarrow> dir @ (if slash then ''/'' else []) @ takeWhile (\<lambda>x. x \<noteq> CHR '';'') seg)"

definition urlparse :: "environment \<Rightarrow> string \<Rightarrow> exn + ParseResult" where
  "urlparse env uri =
     (let url0 = filter (\<lambda>c. c \<notin> set [CHR 0x09, CHR 0x0D, CHR 0x0A])
                   (dropWhile (\<lambda>c. (of_char c :: nat) \<le> 32) uri);
          (sch, url1) = split_scheme url0;
          (loc, url2) = (if take 2 url1 = ''//''
                         then (takeWhile (\<lambda>c. \<not> netloc_end c) (drop 2 url1),
                               dropWhile (\<lambda>c. \<not> netloc_end c) (drop 2 url1))
                         else ([], url1));
          opening = (CHR ''['' \<in> set loc);
          closing = (CHR '']'' \<in> set loc)
      in if opening \<noteq> closing then Inl ValueError
         else if opening \<and> closing
                 \<and> \<not> bracketed_host_ok env (fst (str_partition CHR '']'' (snd (snd (str_partition CHR ''['' loc)))))
         then Inl ValueError
         else
           let url3 = fst (str_partition CHR ''#'' url2);
               url4 = fst (str_partition CHR ''?'' url3);
               url5 = (if sch \<in> set uses_params \<and> CHR '';'' \<in> set url4 then splitparams url4 else url4)
           in Inr \<lparr>scheme = sch, netloc = loc, path = url5\<rparr>)"

definition username :: "ParseResult \<Rightarrow> string option" where
  "username r =
     (case str_rpartition CHR ''@'' (netloc r) of
        (userinfo, have_info, hostinfo) \<Rightarrow>
          if have_info then Some (fst (str_partition CHR '':'' userinfo)) else None)"

text \<open>\<open>_hostinfo\<close>: the host and the text of the port, \<open>None\<close> when it is empty.\<close>

definition hostinfo :: "ParseResult \<Rightarrow> string \<times> string option" where
  "hostinfo r =
     (case str_rpartition CHR ''@'' (netloc r) of
        (userinfo, have_info, hi) \<Rightarrow>
          (case str_partition CHR ''['' hi of
             (before, have_open_br, bracketed) \<Rightarrow>
               let (host, port_text) =
                     (if have_open_br
                      then (fst (str_partition CHR '']'' bracketed),
                            snd (snd (str_partition CHR '':'' (snd (snd (str_partition CHR '']'' bracketed))))))
                      else (fst (str_partition CHR '':'' hi), snd (snd (str_partition CHR '':'' hi))))
               in (host, if port_text = [] then None else Some port_text)))"

definition hostname :: "ParseResult \<Rightarrow> string option" where
  "hostname r =
     (let host = fst (hostinfo r) in
      if host = [] then None
      else (case str_partition CHR ''%'' host of
              (h, percent, zone) \<Rightarrow> Some (lower h @ (if percent then ''%'' else []) @ zone)))"

definition port :: "ParseResult \<Rightarrow> exn + nat option" where
  "port r =
     (case snd (hostinfo r) of
        None \<Rightarrow> Inr None
      | Some p \<Rightarrow>
          if list_all digit_char p
          then (if int_of_digits p \<le> 65535 then Inr (Some (int_of_digits p)) else Inl ValueError)
          else Inl ValueError)"

subsection \<open>\<open>urllib.parse.unquote\<close> and \<open>shlex.quote\<close>\<close>

definition hex_val :: "char \<Rightarrow> nat option" where
  "hex_val c = map_of (zip ''0123456789abcdefABCDEF''
                           [0, 1, 2, 3, 4, 5, 6, 7, 8, 9, 10, 11, 12, 13, 14, 15, 10, 11, 12, 13, 14, 15]) c"

text \<open>An escape is a percent sign and two hexadecimal digits; any other percent sign stays.\<close>

fun unquote :: "string \<Rightarrow> string" where
  "unquote (c # h # l # cs) =
     (case (c = CHR ''%'', hex_val h, hex_val l) of
        (True, Some x, Some y) \<Rightarrow> char_of (16 * x + y) # unquote cs
      | _ \<Rightarrow> c # unquote (h # l # cs))"
| "unquote cs = cs"

definition safe_char :: "char \<Rightarrow> bool" where
  "safe_char c = (alpha_char c \<or> digit_char c \<or> c \<in> set ''_@%+=:,./-'')"

definition shlex_quote :: "string \<Rightarrow> string" where
  "shlex_quote s =
     (if s = [] then [CHR 0x27, CHR 0x27]
      else if list_all safe_char s then s
      else [CHR 0x27]
           @ concat (map (\<lambda>c. if c = CHR 0x27 then [CHR 0x27, CHR 0x22, CHR 0x27, CHR 0x22, CHR 0x27]
                               else [c]) s)
           @ [CHR 0x27])"

subsection \<open>\<open>subprocess.Popen\<close>\<close>

text \<open>
  The call is the effect of the launcher: the argument vector and the \<open>cwd\<close> keyword. An
  argument that is \<open>None\<close> raises \<open>TypeError\<close>; what the operating system does with the
  call is outside the model.
\<close>

record popen_call =
  argv :: "string list"
  cwd :: "string option"

fun strings :: "string option list \<Rightarrow> string list option" where
  "strings [] = Some []"
| "strings (None # xs) = None"
| "strings (Some s # xs) = map_option ((#) s) (strings xs)"

definition Popen :: "string option list \<Rightarrow> string option \<Rightarrow> exn + popen_call" where
  "Popen cmd dir =
     (case strings cmd of None \<Rightarrow> Inl TypeError | Some args \<Rightarrow> Inr \<lparr>argv = args, cwd = dir\<rparr>)"

section \<open>The launcher\<close>

text \<open>\<open>f"{x}"\<close> of an \<open>Optional[str]\<close>.\<close>

fun format_opt :: "string option \<Rightarrow> string" where
  "format_opt None = ''None''"
| "format_opt (Some s) = s"

text \<open>Truth value of an \<open>Optional[int]\<close>, and \<open>str\<close> of one.\<close>

fun truthy_int :: "nat option \<Rightarrow> bool" where
  "truthy_int None = False"
| "truthy_int (Some n) = (n \<noteq> 0)"

fun str_opt :: "nat option \<Rightarrow> string" where
  "str_opt None = ''None''"
| "str_opt (Some n) = str_nat n"

text \<open>
  \<open>open_terminal_in_uri\<close> (lines 154 to 184). The result is the exception raised or the
  call to \<open>Popen\<close>, and the state after: \<open>cmd\<close> is the address of the copy, and the
  globals are read from the state, as the function reads them.
\<close>

definition open_terminal_in_uri :: "environment \<Rightarrow> string \<Rightarrow> state \<Rightarrow> (exn + popen_call) \<times> state" where
  "open_terminal_in_uri env uri st =
     (case urlparse env uri of
        Inl e \<Rightarrow> (Inl e, st)
      | Inr result \<Rightarrow>
          (case terminal_cmd st of
             None \<Rightarrow> (Inl AttributeError, st)
           | Some tc \<Rightarrow>
               let (cmd, st1) = list_copy tc st in
               if scheme result \<in> set REMOTE_URI_SCHEME
               then
                 let st2 = list_extend cmd (map Some (command_arguments (terminal_data st1))) st1;
                     st3 = list_extend cmd [Some ''ssh'', Some ''-t''] st2;
                     st4 = (if truthy (username result)
                            then list_append cmd
                                   (Some (format_opt (username result) @ ''@''
                                          @ format_opt (hostname result))) st3
                            else list_append cmd (hostname result) st3)
                 in (case port result of
                       Inl e \<Rightarrow> (Inl e, st4)
                     | Inr p \<Rightarrow>
                         let st5 = (if truthy_int p
                                    then list_append cmd (Some (str_opt p))
                                           (list_append cmd (Some ''-p'') st4)
                                    else st4);
                             st6 = list_extend cmd
                                     [Some ''cd'', Some (shlex_quote (unquote (path result))),
                                      Some '';'', Some ''exec'', Some ''$SHELL''] st5
                         in (Popen (heap st6 cmd) None, st6))
               else
                 let filename = unquote (path result);
                     st2 = (if new_tab st1 \<and> truthy (new_tab_arguments (terminal_data st1))
                            then list_extend cmd (map Some (elems (new_tab_arguments (terminal_data st1)))) st1
                            else if truthy (new_window_arguments (terminal_data st1))
                            then list_extend cmd (map Some (elems (new_window_arguments (terminal_data st1)))) st1
                            else st1);
                     st3 = (if filename \<noteq> [] \<and> truthy (workdir_arguments (terminal_data st2))
                            then list_append cmd (Some filename)
                                   (list_extend cmd (map Some (elems (workdir_arguments (terminal_data st2)))) st2)
                            else st2)
                 in (Popen (heap st3 cmd) (Some filename), st3)))"

section \<open>How a POSIX shell reads a word\<close>





section \<open>The distribution id as the specification words it\<close>



section \<open>Concrete inputs\<close>

text \<open>An environment without the two identification files.\<close>

definition env_no_os_release :: environment where
  "env_no_os_release =
     \<lparr>file_at = (\<lambda>p. Missing), literal_eval_other = (\<lambda>s. Inl SyntaxError),
      bracketed_host_ok = (\<lambda>h. False)\<rparr>"



definition settings :: "string \<Rightarrow> bool \<Rightarrow> int \<Rightarrow> gsettings" where
  "settings t n f = \<lparr>get_string_terminal = t, get_boolean_new_tab = n, get_enum_flatpak = f\<rparr>"

text \<open>The globals after the module has been loaded with these settings in the store.\<close>

definition resolved :: "string \<Rightarrow> bool \<Rightarrow> int \<Rightarrow> state" where
  "resolved t n f = snd (set_terminal_args env_no_os_release (settings t n f) initial_state)"

text \<open>The address \<open>terminal_cmd\<close> refers to has been allocated.\<close>

definition allocated :: "state \<Rightarrow> bool" where
  "allocated st = (case terminal_cmd st of None \<Rightarrow> True | Some a \<Rightarrow> a < next_addr st)"

section \<open>The resolver\<close>

lemma py_index_FLATPAK_PARMS:
  "py_index FLATPAK_PARMS 0 = Inr ''off''"
  "py_index FLATPAK_PARMS 1 = Inr ''system''"
  "py_index FLATPAK_PARMS 2 = Inr ''user''"
  by (simp_all add: py_index_def FLATPAK_PARMS_def)

text \<open>
  In the registry an optional list of arguments is never the empty list, so the truth value
  of one is its presence; and the command arguments are never empty.
\<close>

lemma registry_lists:
  assumes "TERMINALS t = Some td"
  shows "truthy (new_tab_arguments td) = (new_tab_arguments td \<noteq> None)"
    and "truthy (new_window_arguments td) = (new_window_arguments td \<noteq> None)"
    and "truthy (workdir_arguments td) = (workdir_arguments td \<noteq> None)"
    and "command_arguments td \<noteq> []"
proof -
  from assms have "(t, td) \<in> set TERMINALS_items"
    unfolding TERMINALS_def by (rule map_of_SomeD)
  then show "truthy (new_tab_arguments td) = (new_tab_arguments td \<noteq> None)"
    and "truthy (new_window_arguments td) = (new_window_arguments td \<noteq> None)"
    and "truthy (workdir_arguments td) = (workdir_arguments td \<noteq> None)"
    and "command_arguments td \<noteq> []"
    by (auto simp: TERMINALS_items_def Terminal_init_def)
qed

lemma blackbox_has_package:
  "TERMINALS ''blackbox'' = Some td \<Longrightarrow> flatpak_package td \<noteq> None"
  by (auto simp: TERMINALS_def TERMINALS_items_def Terminal_init_def)

text \<open>An identifier that is not in the registry: only \<open>flatpak\<close> and the output change.\<close>

lemma resolve_unknown:
  assumes "TERMINALS (get_string_terminal gs) = None"
    and "py_index FLATPAK_PARMS (get_enum_flatpak gs) = Inr mode"
  shows "set_terminal_args env gs st =
    (None, print_line (''open-any-terminal: unknown terminal '' @ quoted (get_string_terminal gs))
             (st\<lparr>flatpak := mode\<rparr>))"
  using assms by (simp add: set_terminal_args_def Let_def)

text \<open>What the resolver leaves for an identifier of the registry, on every way through it.\<close>

lemma resolve_known:
  assumes "TERMINALS (get_string_terminal gs) = Some td"
    and "py_index FLATPAK_PARMS (get_enum_flatpak gs) = Inr mode"
  shows "terminal (snd (set_terminal_args env gs st)) = get_string_terminal gs"
    and "terminal_data (snd (set_terminal_args env gs st)) = td"
    and "new_tab (snd (set_terminal_args env gs st))
           = (get_boolean_new_tab gs \<and> truthy (new_tab_arguments td) \<or> new_tab st)"
    and "terminal_cmd (snd (set_terminal_args env gs st)) = Some (next_addr st)"
    and "next_addr (snd (set_terminal_args env gs st)) = Suc (next_addr st)"
    and "a \<noteq> next_addr st \<Longrightarrow> heap (snd (set_terminal_args env gs st)) a = heap st a"
  using assms
  by (simp_all add: set_terminal_args_def Let_def new_list_def print_line_def distro_id_def
      split: sum.splits)

text \<open>The prefix, the exception and the sandbox mode, from the settings and the distribution id.\<close>

lemma resolve_prefix:
  assumes "TERMINALS (get_string_terminal gs) = Some td"
    and "py_index FLATPAK_PARMS (get_enum_flatpak gs) = Inr mode"
  shows "command_prefix (snd (set_terminal_args env gs st)) =
      Some (if mode \<noteq> ''off'' \<and> flatpak_package td \<noteq> None
            then [Some ''flatpak'', Some ''run'', Some (''--'' @ mode), flatpak_package td]
            else [Some (if get_string_terminal gs = ''blackbox''
                           \<and> fst (functools_cache (distro_cache st) (distro_id_body env)) = Inr (PyStr ''fedora'')
                        then ''blackbox-terminal'' else get_string_terminal gs)])"
    and "fst (set_terminal_args env gs st) =
      (if mode \<noteq> ''off'' \<and> flatpak_package td \<noteq> None then None
       else if get_string_terminal gs = ''blackbox''
       then (case fst (functools_cache (distro_cache st) (distro_id_body env)) of
               Inl e \<Rightarrow> Some e | Inr d \<Rightarrow> None)
       else None)"
    and "flatpak (snd (set_terminal_args env gs st)) =
      (if mode \<noteq> ''off'' \<and> flatpak_package td \<noteq> None then mode
       else if get_string_terminal gs = ''blackbox''
       then (case fst (functools_cache (distro_cache st) (distro_id_body env)) of
               Inl e \<Rightarrow> mode | Inr d \<Rightarrow> ''off'')
       else ''off'')"
  using assms
  by (simp_all add: set_terminal_args_def Let_def new_list_def print_line_def distro_id_def
      command_prefix_def FLATPAK_PARMS_def split: sum.splits)

text \<open>
  After a call for an identifier of the registry the command prefix is a list of strings:
  none of its elements is \<open>None\<close>. This is what the claims about the launcher assume of
  the state.
\<close>

lemma resolve_prefix_strings:
  assumes "TERMINALS (get_string_terminal gs) = Some td"
    and "py_index FLATPAK_PARMS (get_enum_flatpak gs) = Inr mode"
  shows "\<exists>prefix. command_prefix (snd (set_terminal_args env gs st)) = Some (map Some prefix)"
proof (cases "mode \<noteq> ''off'' \<and> flatpak_package td \<noteq> None")
  case True
  then obtain pkg where "flatpak_package td = Some pkg" by auto
  with True have "command_prefix (snd (set_terminal_args env gs st))
      = Some (map Some [''flatpak'', ''run'', ''--'' @ mode, pkg])"
    by (simp add: resolve_prefix(1) [OF assms])
  then show ?thesis by blast
next
  case False
  then have "command_prefix (snd (set_terminal_args env gs st))
      = Some (map Some [if get_string_terminal gs = ''blackbox''
                           \<and> fst (functools_cache (distro_cache st) (distro_id_body env)) = Inr (PyStr ''fedora'')
                        then ''blackbox-terminal'' else get_string_terminal gs])"
    by (simp add: resolve_prefix(1) [OF assms])
  then show ?thesis by blast
qed

lemma allocated_initial_state: "allocated initial_state"
  by (simp add: allocated_def initial_state_def)

lemma allocated_set_terminal_args:
  assumes "allocated st"
  shows "allocated (snd (set_terminal_args env gs st))"
proof (cases "py_index FLATPAK_PARMS (get_enum_flatpak gs)")
  case (Inl e)
  with assms show ?thesis by (simp add: set_terminal_args_def)
next
  case (Inr mode)
  show ?thesis
  proof (cases "TERMINALS (get_string_terminal gs)")
    case None
    with Inr assms show ?thesis
      by (simp add: resolve_unknown allocated_def print_line_def split: option.splits)
  next
    case (Some td)
    with Inr show ?thesis
      by (simp add: allocated_def resolve_known)
  qed
qed

section \<open>Claims about the resolver\<close>

text \<open>
  C1. An identifier that is not in the registry should leave every field of the resolved
  configuration as it was. The resolver assigns the global \<open>flatpak\<close> before it looks the
  identifier up: with \<open>xterm\<close> resolved and the sandbox off, the settings
  \<open>terminal = nonexistent\<close>, \<open>flatpak = user\<close> print the diagnostic, raise nothing, keep
  every other global, and leave \<open>flatpak = user\<close> beside the prefix of the direct launch.
\<close>

theorem unknown_terminal_overwrites_flatpak:
  "set_terminal_args env (settings ''nonexistent'' False 2) (resolved ''xterm'' False 0)
     = (None, (resolved ''xterm'' False 0)
                \<lparr>flatpak := ''user'',
                 stdout := stdout (resolved ''xterm'' False 0)
                           @ [''open-any-terminal: unknown terminal '' @ quoted ''nonexistent'']\<rparr>)
   \<and> flatpak (resolved ''xterm'' False 0) = ''off''"
proof -
  have t: "TERMINALS (get_string_terminal (settings ''nonexistent'' False 2)) = None"
    by (simp add: TERMINALS_def TERMINALS_items_def settings_def)
  have i: "py_index FLATPAK_PARMS (get_enum_flatpak (settings ''nonexistent'' False 2)) = Inr ''user''"
    by (simp add: settings_def py_index_FLATPAK_PARMS)
  have x: "TERMINALS (get_string_terminal (settings ''xterm'' False 0)) = Some (Terminal_init ''XTerm'')"
    by (simp add: TERMINALS_def TERMINALS_items_def settings_def)
  have j: "py_index FLATPAK_PARMS (get_enum_flatpak (settings ''xterm'' False 0)) = Inr ''off''"
    by (simp add: settings_def py_index_FLATPAK_PARMS)
  have "flatpak (resolved ''xterm'' False 0) = ''off''"
    unfolding resolved_def by (simp add: resolve_prefix(3) [OF x j])
  then show ?thesis
    by (subst resolve_unknown [OF t i]) (simp add: print_line_def settings_def)
qed




text \<open>
  C3. Without the identification files \<open>distro_id\<close> should return \<open>unknown\<close>. A missing file
  is skipped inside \<open>read_os_release\<close>, so no \<open>OSError\<close> reaches \<open>distro_id\<close>; the
  dictionary is empty and \<open>["ID"]\<close> raises \<open>KeyError\<close>, which the resolver passes on when
  the terminal is \<open>blackbox\<close> and the sandbox is off.
\<close>

theorem distro_id_without_files_raises:
  "fst (distro_id env_no_os_release initial_state) = Inl KeyError
   \<and> fst (set_terminal_args env_no_os_release (settings ''blackbox'' False 0) initial_state) = Some KeyError"
proof -
  have b: "distro_id_body env_no_os_release = Inl KeyError"
    by (simp add: distro_id_body_def read_os_release_def possible_os_release_paths_def
        env_no_os_release_def)
  have c: "functools_cache (distro_cache initial_state) (distro_id_body env_no_os_release) = (Inl KeyError, None)"
    by (simp add: b functools_cache_def initial_state_def)
  have t: "TERMINALS (get_string_terminal (settings ''blackbox'' False 0))
             = Some ((Terminal_init ''Black Box'')
        \<lparr>workdir_arguments := Some [''--working-directory''],
         command_arguments := [''-c''],
         flatpak_package := Some ''com.raggesilver.BlackBox''\<rparr>)"
    by (simp add: TERMINALS_def TERMINALS_items_def settings_def)
  have i: "py_index FLATPAK_PARMS (get_enum_flatpak (settings ''blackbox'' False 0)) = Inr ''off''"
    by (simp add: settings_def py_index_FLATPAK_PARMS)
  show ?thesis
    by (simp add: resolve_prefix(2) [OF t i] c distro_id_def) (simp add: settings_def)
qed

text \<open>
  C7. With a sandbox mode other than off, a terminal of the registry that has a package
  identifier is launched through \<open>flatpak run --mode package\<close>; one that has none is launched
  directly by its identifier, the sandbox mode goes back to off, and nothing is raised.
\<close>

theorem flatpak_prefix:
  assumes "py_index FLATPAK_PARMS (get_enum_flatpak gs) = Inr mode" and "mode \<noteq> ''off''"
    and "TERMINALS (get_string_terminal gs) = Some td"
  shows "fst (set_terminal_args env gs st) = None \<and>
    (case flatpak_package td of
       Some pkg \<Rightarrow>
         command_prefix (snd (set_terminal_args env gs st))
           = Some [Some ''flatpak'', Some ''run'', Some (''--'' @ mode), Some pkg]
         \<and> flatpak (snd (set_terminal_args env gs st)) = mode
     | None \<Rightarrow>
         command_prefix (snd (set_terminal_args env gs st)) = Some [Some (get_string_terminal gs)]
         \<and> flatpak (snd (set_terminal_args env gs st)) = ''off'')"
proof (cases "flatpak_package td")
  case None
  with assms(3) have "get_string_terminal gs \<noteq> ''blackbox''"
    using blackbox_has_package by fastforce
  with None show ?thesis
    by (simp add: resolve_prefix [OF assms(3,1)])
next
  case (Some pkg)
  with assms(2) show ?thesis
    by (simp add: resolve_prefix [OF assms(3,1)])
qed

theorem flatpak_prefix_witness:
  "command_prefix (snd (set_terminal_args env_no_os_release (settings ''tilix'' False 2) initial_state))
     = Some [Some ''flatpak'', Some ''run'', Some ''--user'', Some ''com.gexperts.Tilix'']
   \<and> fst (set_terminal_args env_no_os_release (settings ''xterm'' False 1) initial_state) = None
   \<and> command_prefix (snd (set_terminal_args env_no_os_release (settings ''xterm'' False 1) initial_state))
     = Some [Some ''xterm'']"
proof -
  have i2: "py_index FLATPAK_PARMS (get_enum_flatpak (settings ''tilix'' False 2)) = Inr ''user''"
    by (simp add: py_index_FLATPAK_PARMS settings_def)
  have t: "TERMINALS (get_string_terminal (settings ''tilix'' False 2))
             = Some ((Terminal_init ''Tilix'')\<lparr>flatpak_package := Some ''com.gexperts.Tilix''\<rparr>)"
    by (simp add: TERMINALS_def TERMINALS_items_def settings_def)
  have i1: "py_index FLATPAK_PARMS (get_enum_flatpak (settings ''xterm'' False 1)) = Inr ''system''"
    by (simp add: py_index_FLATPAK_PARMS settings_def)
  have x: "TERMINALS (get_string_terminal (settings ''xterm'' False 1)) = Some (Terminal_init ''XTerm'')"
    by (simp add: TERMINALS_def TERMINALS_items_def settings_def)
  show ?thesis
    using flatpak_prefix [OF i2 _ t, of env_no_os_release initial_state]
      flatpak_prefix [OF i1 _ x, of env_no_os_release initial_state]
    by (simp add: Terminal_init_def settings_def)
qed

section \<open>Claims about the distribution id\<close>







section \<open>The launcher\<close>

lemma strings_map_Some: "strings (map Some xs) = Some xs"
  by (induction xs) simp_all


lemma Popen_strings: "Popen (map Some xs) d = Inr \<lparr>argv = xs, cwd = d\<rparr>"
  by (simp add: Popen_def strings_map_Some)



lemma launcher_state:
  shows "terminal (snd (open_terminal_in_uri env uri st)) = terminal st"
    and "terminal_cmd (snd (open_terminal_in_uri env uri st)) = terminal_cmd st"
    and "terminal_data (snd (open_terminal_in_uri env uri st)) = terminal_data st"
    and "new_tab (snd (open_terminal_in_uri env uri st)) = new_tab st"
    and "flatpak (snd (open_terminal_in_uri env uri st)) = flatpak st"
    and "a \<noteq> next_addr st \<Longrightarrow> heap (snd (open_terminal_in_uri env uri st)) a = heap st a"
  by (simp_all add: open_terminal_in_uri_def Let_def list_copy_def new_list_def list_extend_def
      list_append_def split: sum.splits option.splits)

section \<open>The library functions on the concrete inputs\<close>













lemma resolved_direct:
  assumes "TERMINALS t = Some td" and "t \<noteq> ''blackbox''"
  shows "command_prefix (resolved t n 0) = Some (map Some [t])"
    and "terminal_data (resolved t n 0) = td"
    and "new_tab (resolved t n 0) = (n \<and> truthy (new_tab_arguments td))"
    and "allocated (resolved t n 0)"
proof -
  have k: "TERMINALS (get_string_terminal (settings t n 0)) = Some td"
    by (simp add: settings_def assms)
  have i: "py_index FLATPAK_PARMS (get_enum_flatpak (settings t n 0)) = Inr ''off''"
    by (simp add: settings_def py_index_FLATPAK_PARMS)
  show "command_prefix (resolved t n 0) = Some (map Some [t])"
    unfolding resolved_def resolve_prefix(1) [OF k i] by (simp add: settings_def assms)
  show "terminal_data (resolved t n 0) = td"
    unfolding resolved_def by (rule resolve_known(2) [OF k i])
  show "new_tab (resolved t n 0) = (n \<and> truthy (new_tab_arguments td))"
    unfolding resolved_def resolve_known(3) [OF k i] by (simp add: settings_def initial_state_def)
  show "allocated (resolved t n 0)"
    unfolding resolved_def by (rule allocated_set_terminal_args [OF allocated_initial_state])
qed

section \<open>What the shell reads of a quoted path\<close>






section \<open>Claims about the launcher\<close>

lemma xterm_entry: "TERMINALS ''xterm'' = Some (Terminal_init ''XTerm'')"
  by (simp add: TERMINALS_def TERMINALS_items_def)











lemma allocated_open_terminal_in_uri:
  "allocated st \<Longrightarrow> allocated (snd (open_terminal_in_uri env uri st))"
  by (simp add: allocated_def launcher_state(2) open_terminal_in_uri_def Let_def list_copy_def
      new_list_def list_extend_def list_append_def split: sum.splits option.splits)

text \<open>
  C9. The launcher leaves the globals as they were: it extends a copy of the list
  \<open>terminal_cmd\<close> refers to, at a fresh address, so the list of the command prefix and
  every other list allocated before the call keep their elements.
\<close>

theorem launcher_keeps_globals:
  assumes "allocated st"
  shows "terminal (snd (open_terminal_in_uri env uri st)) = terminal st
    \<and> terminal_cmd (snd (open_terminal_in_uri env uri st)) = terminal_cmd st
    \<and> terminal_data (snd (open_terminal_in_uri env uri st)) = terminal_data st
    \<and> new_tab (snd (open_terminal_in_uri env uri st)) = new_tab st
    \<and> flatpak (snd (open_terminal_in_uri env uri st)) = flatpak st
    \<and> command_prefix (snd (open_terminal_in_uri env uri st)) = command_prefix st
    \<and> (\<forall>a. a < next_addr st \<longrightarrow> heap (snd (open_terminal_in_uri env uri st)) a = heap st a)"
proof -
  have "command_prefix (snd (open_terminal_in_uri env uri st)) = command_prefix st"
    using assms
    by (cases "terminal_cmd st") (simp_all add: command_prefix_def allocated_def launcher_state)
  then show ?thesis
    by (simp add: launcher_state)
qed

theorem launcher_keeps_globals_witness:
  "allocated (resolved ''xterm'' False 0)
   \<and> command_prefix (snd (open_terminal_in_uri env_no_os_release ''sftp://bob@example.com:2222/srv/data''
                            (resolved ''xterm'' False 0))) = Some [Some ''xterm'']
   \<and> terminal_data (snd (open_terminal_in_uri env_no_os_release ''sftp://bob@example.com:2222/srv/data''
                            (resolved ''xterm'' False 0))) = Terminal_init ''XTerm''"
  using launcher_keeps_globals [OF resolved_direct(4) [OF xterm_entry, where n = False],
      where env = env_no_os_release and uri = "''sftp://bob@example.com:2222/srv/data''"]
  by (simp add: resolved_direct [OF xterm_entry])




end
